theory Spec2Isabelle
  imports
    Main
    "HOL-Library.Multiset"
    "HOL-Library.List_Lexorder"
    "HOL-Library.Char_ord"
begin

section \<open>Data model\<close>

text \<open>
  The entities of the librarian and counselor dashboards. The status unions of the
  TypeScript interfaces are datatypes; the numeric columns are integers. A field whose
  source name is taken in HOL, or is used by two interfaces, carries a suffix.
\<close>

datatype issue_status = Requested | Issued | Returned | Overdue

datatype request_status = Pending | Accepted | Completed | Cancelled

record Book =
  id_Book :: string
  title :: string
  author :: string
  total_copies :: int
  available_copies :: int

record Student =
  name :: string
  student_id :: string
  class_Student :: string

text \<open>A row of \<open>users\<close>: the three selected columns and the primary key.\<close>

record user_row = Student +
  id_user :: string

text \<open>
  A row of \<open>book_issues\<close> as \<open>select('*')\<close> returns it: the columns of the interface
  \<open>BookIssue\<close>, the two columns the handler writes (\<open>issued_by\<close>, \<open>return_date\<close>) and the
  two foreign keys the embedded relations are resolved through.
\<close>

record issue_row =
  id_BookIssue :: string
  status :: issue_status
  issued_date :: string
  due_date :: string
  return_date :: "string option"
  issued_by :: "string option"
  book_id :: string
  student_fk :: string

text \<open>The snapshot row: all columns plus the embedded \<open>book\<close> and \<open>student\<close>.\<close>

record BookIssue = issue_row +
  book :: "Book option"
  student :: "Student option"

record request_row =
  id_CounselingRequest :: string
  reason :: string
  message :: "string option"
  status_req :: request_status
  requested_at :: string
  completed_at :: "string option"
  student_id_req :: string
  counselor_id :: string

record CounselingRequest = request_row +
  student_req :: "Student option"

section \<open>The backend collaborator\<close>

text \<open>
  A partial-row update is a list of column assignments, the properties of the object
  handed to \<open>update\<close>. Every column of a table but its primary key can be assigned.
\<close>

datatype book_col =
    Set_title string
  | Set_author string
  | Set_total_copies int
  | Set_available_copies int

datatype issue_col =
    Set_status issue_status
  | Set_issued_date string
  | Set_due_date string
  | Set_return_date string
  | Set_issued_by string
  | Set_book_id string
  | Set_student_fk string

datatype request_col =
    Set_reason string
  | Set_message "string option"
  | Set_status_req request_status
  | Set_requested_at string
  | Set_completed_at string
  | Set_student_id_req string
  | Set_counselor_id string

fun assign_book :: "book_col \<Rightarrow> Book \<Rightarrow> Book" where
  "assign_book (Set_title v) b = b\<lparr>title := v\<rparr>"
| "assign_book (Set_author v) b = b\<lparr>author := v\<rparr>"
| "assign_book (Set_total_copies v) b = b\<lparr>total_copies := v\<rparr>"
| "assign_book (Set_available_copies v) b = b\<lparr>available_copies := v\<rparr>"

fun assign_issue :: "issue_col \<Rightarrow> issue_row \<Rightarrow> issue_row" where
  "assign_issue (Set_status v) r = r\<lparr>status := v\<rparr>"
| "assign_issue (Set_issued_date v) r = r\<lparr>issued_date := v\<rparr>"
| "assign_issue (Set_due_date v) r = r\<lparr>due_date := v\<rparr>"
| "assign_issue (Set_return_date v) r = r\<lparr>return_date := Some v\<rparr>"
| "assign_issue (Set_issued_by v) r = r\<lparr>issued_by := Some v\<rparr>"
| "assign_issue (Set_book_id v) r = r\<lparr>book_id := v\<rparr>"
| "assign_issue (Set_student_fk v) r = r\<lparr>student_fk := v\<rparr>"

fun assign_request :: "request_col \<Rightarrow> request_row \<Rightarrow> request_row" where
  "assign_request (Set_reason v) r = r\<lparr>reason := v\<rparr>"
| "assign_request (Set_message v) r = r\<lparr>message := v\<rparr>"
| "assign_request (Set_status_req v) r = r\<lparr>status_req := v\<rparr>"
| "assign_request (Set_requested_at v) r = r\<lparr>requested_at := v\<rparr>"
| "assign_request (Set_completed_at v) r = r\<lparr>completed_at := Some v\<rparr>"
| "assign_request (Set_student_id_req v) r = r\<lparr>student_id_req := v\<rparr>"
| "assign_request (Set_counselor_id v) r = r\<lparr>counselor_id := v\<rparr>"

record backend =
  books_tbl :: "Book list"
  book_issues_tbl :: "issue_row list"
  counseling_requests_tbl :: "request_row list"
  users_tbl :: "user_row list"

text \<open>The requests a dashboard sends, as the query builder chains spell them.\<close>

datatype call =
    Select_books
  | Select_book_issues
  | Select_counseling_requests string
  | Update_book_issues "issue_col list" string
  | Update_books "book_col list" string
  | Update_counseling_requests "request_col list" string

text \<open>
  What lies outside a component: the tables, the error (if any) the backend answers
  each coming request with, in order (an exhausted schedule answers without error), the
  log of requests sent, the authenticated user's id (\<open>user?.id\<close>), the clock read by
  \<open>new Date().toISOString()\<close>, and the two output channels \<open>alert\<close> and
  \<open>console.error\<close>.
\<close>

record world =
  db :: backend
  faults :: "string option list"
  calls :: "call list"
  user_id :: "string option"
  clock :: string
  alerts :: "string list"
  console :: "string list"

text \<open>The \<open>{ data, error }\<close> object a request resolves to.\<close>

datatype 'a response = Response (error: "string option") (data: "'a option")

text \<open>Sending a request: it is logged and consumes the next scheduled answer.\<close>

definition send :: "call \<Rightarrow> 'a world_scheme \<Rightarrow> string option \<times> 'a world_scheme" where
  "send c w =
     (case faults w of
        [] \<Rightarrow> (None, w\<lparr>calls := calls w @ [c]\<rparr>)
      | f # fs \<Rightarrow> (f, w\<lparr>calls := calls w @ [c], faults := fs\<rparr>))"

text \<open>The answer scheduled for the \<open>n\<close>-th coming request.\<close>

fun scheduled :: "nat \<Rightarrow> string option list \<Rightarrow> string option" where
  "scheduled n [] = None"
| "scheduled 0 (f # fs) = f"
| "scheduled (Suc n) (f # fs) = scheduled n fs"

text \<open>The requests that write.\<close>

fun is_write :: "call \<Rightarrow> bool" where
  "is_write (Update_book_issues p k) = True"
| "is_write (Update_books p k) = True"
| "is_write (Update_counseling_requests p k) = True"
| "is_write c = False"

text \<open>
  Modelled from the spec: the hosted store itself is not part of the repository. Section 6
  gives its contract: filtered, ordered, joined reads by table name with embedded
  relations, and partial-row updates by primary key. A request answered with an error
  returns no data and writes nothing.
\<close>

definition join_issue :: "backend \<Rightarrow> issue_row \<Rightarrow> BookIssue" where
  "join_issue d r =
     issue_row.extend r
       (BookIssue.fields
          (find (\<lambda>b. id_Book b = book_id r) (books_tbl d))
          (map_option Student.truncate (find (\<lambda>u. id_user u = student_fk r) (users_tbl d))))"

definition join_request :: "backend \<Rightarrow> request_row \<Rightarrow> CounselingRequest" where
  "join_request d r =
     request_row.extend r
       (CounselingRequest.fields
          (map_option Student.truncate
             (find (\<lambda>u. id_user u = student_id_req r) (users_tbl d))))"

definition select_books :: "'a world_scheme \<Rightarrow> Book list response \<times> 'a world_scheme" where
  "select_books w =
     (case send Select_books w of
        (Some e, w') \<Rightarrow> (Response (Some e) None, w')
      | (None, w') \<Rightarrow> (Response None (Some (sort_key title (books_tbl (db w')))), w'))"

definition select_book_issues ::
    "'a world_scheme \<Rightarrow> BookIssue list response \<times> 'a world_scheme" where
  "select_book_issues w =
     (case send Select_book_issues w of
        (Some e, w') \<Rightarrow> (Response (Some e) None, w')
      | (None, w') \<Rightarrow>
          (Response None
             (Some (map (join_issue (db w'))
                      (rev (sort_key issued_date (book_issues_tbl (db w')))))), w'))"

definition select_counseling_requests ::
    "string \<Rightarrow> 'a world_scheme \<Rightarrow> CounselingRequest list response \<times> 'a world_scheme" where
  "select_counseling_requests cid w =
     (case send (Select_counseling_requests cid) w of
        (Some e, w') \<Rightarrow> (Response (Some e) None, w')
      | (None, w') \<Rightarrow>
          (Response None
             (Some (map (join_request (db w'))
                      (rev (sort_key requested_at
                              (filter (\<lambda>r. counselor_id r = cid)
                                 (counseling_requests_tbl (db w'))))))), w'))"

definition update_book_issues ::
    "issue_col list \<Rightarrow> string \<Rightarrow> 'a world_scheme \<Rightarrow> unit response \<times> 'a world_scheme" where
  "update_book_issues updateData k w =
     (case send (Update_book_issues updateData k) w of
        (Some e, w') \<Rightarrow> (Response (Some e) None, w')
      | (None, w') \<Rightarrow>
          (Response None None,
           w'\<lparr>db := (db w')\<lparr>book_issues_tbl :=
                 map (\<lambda>r. if id_BookIssue r = k then fold assign_issue updateData r else r)
                   (book_issues_tbl (db w'))\<rparr>\<rparr>))"

definition update_books ::
    "book_col list \<Rightarrow> string \<Rightarrow> 'a world_scheme \<Rightarrow> unit response \<times> 'a world_scheme" where
  "update_books updateData k w =
     (case send (Update_books updateData k) w of
        (Some e, w') \<Rightarrow> (Response (Some e) None, w')
      | (None, w') \<Rightarrow>
          (Response None None,
           w'\<lparr>db := (db w')\<lparr>books_tbl :=
                 map (\<lambda>b. if id_Book b = k then fold assign_book updateData b else b)
                   (books_tbl (db w'))\<rparr>\<rparr>))"

definition update_counseling_requests ::
    "request_col list \<Rightarrow> string \<Rightarrow> 'a world_scheme \<Rightarrow> unit response \<times> 'a world_scheme" where
  "update_counseling_requests updateData k w =
     (case send (Update_counseling_requests updateData k) w of
        (Some e, w') \<Rightarrow> (Response (Some e) None, w')
      | (None, w') \<Rightarrow>
          (Response None None,
           w'\<lparr>db := (db w')\<lparr>counseling_requests_tbl :=
                 map (\<lambda>r. if id_CounselingRequest r = k then fold assign_request updateData r
                          else r)
                   (counseling_requests_tbl (db w'))\<rparr>\<rparr>))"

section \<open>LibrarianDashboard\<close>

record library_stats =
  totalBooks :: int
  availableBooks :: int
  issuedBooks :: nat
  overdueBooks :: nat
  pendingRequests :: nat

text \<open>The component: the world it runs in and its four \<open>useState\<close> cells.\<close>

record librarian = world +
  books :: "Book list"
  bookIssues :: "BookIssue list"
  loading :: bool
  stats :: library_stats

datatype issue_action = Approve | Return

fun issue_action_name :: "issue_action \<Rightarrow> string" where
  "issue_action_name Approve = ''approve''"
| "issue_action_name Return = ''return''"

text \<open>The stats computation of \<open>loadLibraryData\<close> (two reductions, three filters).\<close>

definition library_stats_of :: "Book list \<Rightarrow> BookIssue list \<Rightarrow> library_stats" where
  "library_stats_of booksData issuesData =
     \<lparr>totalBooks = fold (\<lambda>book sum. sum + total_copies book) booksData 0,
      availableBooks = fold (\<lambda>book sum. sum + available_copies book) booksData 0,
      issuedBooks = length (filter (\<lambda>issue. status issue = Issued) issuesData),
      overdueBooks = length (filter (\<lambda>issue. status issue = Overdue) issuesData),
      pendingRequests = length (filter (\<lambda>issue. status issue = Requested) issuesData)\<rparr>"

text \<open>
  The \<open>try\<close> block of \<open>loadLibraryData\<close>. Both queries are sent (\<open>Promise.all\<close>); the
  first error found is thrown (\<open>Inl\<close>) before any cell is set.
\<close>

definition loadLibraryData_try :: "librarian \<Rightarrow> (string + unit) \<times> librarian" where
  "loadLibraryData_try s =
     (let (booksRes, s1) = select_books s;
          (issuesRes, s2) = select_book_issues s1
      in case error booksRes of
           Some e \<Rightarrow> (Inl e, s2)
         | None \<Rightarrow>
             (case error issuesRes of
                Some e \<Rightarrow> (Inl e, s2)
              | None \<Rightarrow>
                  (let booksData = (case data booksRes of Some d \<Rightarrow> d | None \<Rightarrow> []);
                       issuesData = (case data issuesRes of Some d \<Rightarrow> d | None \<Rightarrow> [])
                   in (Inr (),
                       s2\<lparr>books := booksData,
                          bookIssues := issuesData,
                          stats := library_stats_of booksData issuesData\<rparr>))))"

text \<open>
  \<open>catch\<close> logs the error and swallows it; \<open>finally\<close> clears the loading flag. The first
  component is how the promise of the \<open>async\<close> function settles for the caller that
  awaits it: rejected with an error (\<open>Inl\<close>) or fulfilled (\<open>Inr\<close>).
\<close>

definition loadLibraryData :: "librarian \<Rightarrow> (string + unit) \<times> librarian" where
  "loadLibraryData s =
     (let s' = (case loadLibraryData_try s of
                  (Inl e, s1) \<Rightarrow>
                    s1\<lparr>console := console s1 @ [''Error loading library data: '' @ e]\<rparr>
                | (Inr u, s1) \<Rightarrow> s1)
      in (Inr (), s'\<lparr>loading := False\<rparr>))"

text \<open>
  The object \<open>updateData\<close> of \<open>handleIssueAction\<close>. \<open>issued_by\<close> is \<open>user?.id\<close>: with no
  user the property is undefined and does not reach the request body.
\<close>

definition issue_updateData :: "issue_action \<Rightarrow> librarian \<Rightarrow> issue_col list" where
  "issue_updateData action s =
     (case action of
        Approve \<Rightarrow>
          Set_status Issued # (case user_id s of None \<Rightarrow> [] | Some u \<Rightarrow> [Set_issued_by u])
      | Return \<Rightarrow>
          [Set_status Returned,
           Set_return_date (takeWhile (\<lambda>c. c \<noteq> CHR ''T'') (clock s))])"

text \<open>
  The inventory write: the issue is looked up in the snapshot held by the component, and
  the new count is computed from the book embedded there. The answer to the write is not
  inspected.
\<close>

definition update_availability :: "string \<Rightarrow> issue_action \<Rightarrow> librarian \<Rightarrow> librarian" where
  "update_availability issueId action s =
     (case find (\<lambda>i. id_BookIssue i = issueId) (bookIssues s) of
        None \<Rightarrow> s
      | Some issue \<Rightarrow>
          (case book issue of
             None \<Rightarrow> s
           | Some b \<Rightarrow>
               (case action of
                  Approve \<Rightarrow>
                    snd (update_books [Set_available_copies (available_copies b - 1)]
                           (id_Book b) s)
                | Return \<Rightarrow>
                    snd (update_books [Set_available_copies (available_copies b + 1)]
                           (id_Book b) s))))"

definition handleIssueAction :: "string \<Rightarrow> issue_action \<Rightarrow> librarian \<Rightarrow> librarian" where
  "handleIssueAction issueId action s =
     (let failed = (\<lambda>e s'.
            s'\<lparr>console := console s' @
                   [''Error '' @ issue_action_name action @ ''ing book: '' @ e],
               alerts := alerts s' @
                   [''Failed to '' @ issue_action_name action @ '' book. Please try again.'']\<rparr>);
          (res, s1) = update_book_issues (issue_updateData action s) issueId s
      in case error res of
           Some e \<Rightarrow> failed e s1
         | None \<Rightarrow>
             (let s2 = update_availability issueId action s1
              in case loadLibraryData s2 of
                   (Inl e, s3) \<Rightarrow> failed e s3
                 | (Inr u, s3) \<Rightarrow>
                     s3\<lparr>alerts := alerts s3 @
                        [''Book '' @ (case action of Approve \<Rightarrow> ''issued'' | Return \<Rightarrow> ''returned'')
                           @ '' successfully!'']\<rparr>))"

text \<open>The component as first rendered, and after the effect that loads it on mount.\<close>

definition librarian_init ::
    "backend \<Rightarrow> string option list \<Rightarrow> string option \<Rightarrow> string \<Rightarrow> librarian" where
  "librarian_init d fs u t =
     \<lparr>db = d, faults = fs, calls = [], user_id = u, clock = t, alerts = [], console = [],
      books = [], bookIssues = [], loading = True,
      stats = \<lparr>totalBooks = 0, availableBooks = 0, issuedBooks = 0, overdueBooks = 0,
               pendingRequests = 0\<rparr>\<rparr>"

definition librarian_mount ::
    "backend \<Rightarrow> string option list \<Rightarrow> string option \<Rightarrow> string \<Rightarrow> librarian" where
  "librarian_mount d fs u t = snd (loadLibraryData (librarian_init d fs u t))"


section \<open>CounselorDashboard\<close>

record counseling_stats =
  totalRequests :: nat
  pendingRequests_c :: nat
  activeRequests :: nat
  completedRequests :: nat

record counselor = world +
  requests :: "CounselingRequest list"
  loading_c :: bool
  stats_c :: counseling_stats

datatype request_action = Accept | Complete

fun request_action_name :: "request_action \<Rightarrow> string" where
  "request_action_name Accept = ''accept''"
| "request_action_name Complete = ''complete''"

definition counseling_stats_of :: "CounselingRequest list \<Rightarrow> counseling_stats" where
  "counseling_stats_of requestsData =
     \<lparr>totalRequests = length requestsData,
      pendingRequests_c = length (filter (\<lambda>r. status_req r = Pending) requestsData),
      activeRequests = length (filter (\<lambda>r. status_req r = Accepted) requestsData),
      completedRequests = length (filter (\<lambda>r. status_req r = Completed) requestsData)\<rparr>"

text \<open>The \<open>try\<close> block of \<open>loadCounselingRequests\<close>, for the user id \<open>uid\<close>.\<close>

definition loadCounselingRequests_try ::
    "string \<Rightarrow> counselor \<Rightarrow> (string + unit) \<times> counselor" where
  "loadCounselingRequests_try uid s =
     (let (res, s1) = select_counseling_requests uid s
      in case error res of
           Some e \<Rightarrow> (Inl e, s1)
         | None \<Rightarrow>
             (let requestsData = (case data res of Some d \<Rightarrow> d | None \<Rightarrow> [])
              in (Inr (),
                  s1\<lparr>requests := requestsData,
                     stats_c := counseling_stats_of requestsData\<rparr>)))"

text \<open>
  The guard \<open>if (!user?.id) return\<close> stands before the \<open>try\<close>: a missing id, and
  the empty string, return at once, without the \<open>finally\<close>.
\<close>

definition loadCounselingRequests :: "counselor \<Rightarrow> (string + unit) \<times> counselor" where
  "loadCounselingRequests s =
     (case user_id s of
        None \<Rightarrow> (Inr (), s)
      | Some uid \<Rightarrow>
          if uid = [] then (Inr (), s)
          else
            (let s' = (case loadCounselingRequests_try uid s of
                         (Inl e, s1) \<Rightarrow>
                           s1\<lparr>console := console s1 @
                                 [''Error loading counseling requests: '' @ e]\<rparr>
                       | (Inr u, s1) \<Rightarrow> s1)
             in (Inr (), s'\<lparr>loading_c := False\<rparr>)))"

definition request_updateData :: "request_action \<Rightarrow> counselor \<Rightarrow> request_col list" where
  "request_updateData action s =
     Set_status_req (case action of Accept \<Rightarrow> Accepted | Complete \<Rightarrow> Completed) #
     (case action of Complete \<Rightarrow> [Set_completed_at (clock s)] | Accept \<Rightarrow> [])"

definition handleRequestAction :: "string \<Rightarrow> request_action \<Rightarrow> counselor \<Rightarrow> counselor" where
  "handleRequestAction requestId action s =
     (let failed = (\<lambda>e s'.
            s'\<lparr>console := console s' @
                   [''Error '' @ request_action_name action @ ''ing request: '' @ e],
               alerts := alerts s' @
                   [''Failed to '' @ request_action_name action @
                    '' request. Please try again.'']\<rparr>);
          (res, s1) = update_counseling_requests (request_updateData action s) requestId s
      in case error res of
           Some e \<Rightarrow> failed e s1
         | None \<Rightarrow>
             (case loadCounselingRequests s1 of
                (Inl e, s2) \<Rightarrow> failed e s2
              | (Inr u, s2) \<Rightarrow>
                  s2\<lparr>alerts := alerts s2 @
                     [''Request '' @ request_action_name action @ ''ed successfully!'']\<rparr>))"


definition counselor_init ::
    "backend \<Rightarrow> string option list \<Rightarrow> string option \<Rightarrow> string \<Rightarrow> counselor" where
  "counselor_init d fs u t =
     \<lparr>db = d, faults = fs, calls = [], user_id = u, clock = t, alerts = [], console = [],
      requests = [], loading_c = True,
      stats_c = \<lparr>totalRequests = 0, pendingRequests_c = 0, activeRequests = 0,
                 completedRequests = 0\<rparr>\<rparr>"

definition counselor_mount ::
    "backend \<Rightarrow> string option list \<Rightarrow> string option \<Rightarrow> string \<Rightarrow> counselor" where
  "counselor_mount d fs u t = snd (loadCounselingRequests (counselor_init d fs u t))"

section \<open>Stock counts along a run\<close>


section \<open>Example data\<close>

text \<open>One book, one issue against it, and the librarian dashboard mounted on them.\<close>

definition example_book :: "int \<Rightarrow> int \<Rightarrow> Book" where
  "example_book t a =
     \<lparr>id_Book = ''b1'', title = ''Dune'', author = ''Herbert'', total_copies = t,
      available_copies = a\<rparr>"

definition example_issue :: "issue_status \<Rightarrow> issue_row" where
  "example_issue st =
     \<lparr>id_BookIssue = ''i1'', status = st, issued_date = ''2024-01-01'',
      due_date = ''2024-01-15'', return_date = None, issued_by = None, book_id = ''b1'',
      student_fk = ''u1''\<rparr>"

definition example_library :: "int \<Rightarrow> int \<Rightarrow> issue_status \<Rightarrow> backend" where
  "example_library t a st =
     \<lparr>books_tbl = [example_book t a], book_issues_tbl = [example_issue st],
      counseling_requests_tbl = [], users_tbl = []\<rparr>"

definition example_librarian ::
    "int \<Rightarrow> int \<Rightarrow> issue_status \<Rightarrow> string option list \<Rightarrow> librarian" where
  "example_librarian t a st fs =
     librarian_mount (example_library t a st) fs (Some ''staff'') ''2024-02-03T10:15:00.000Z''"

text \<open>One counseling request of counselor \<open>c1\<close>, and the counselor dashboard mounted on it.\<close>

definition example_request :: "request_status \<Rightarrow> request_row" where
  "example_request st =
     \<lparr>id_CounselingRequest = ''r1'', reason = ''Exam stress'', message = None,
      status_req = st, requested_at = ''2024-02-01T09:00:00.000Z'', completed_at = None,
      student_id_req = ''u1'', counselor_id = ''c1''\<rparr>"

definition example_counseling :: "request_status \<Rightarrow> backend" where
  "example_counseling st =
     \<lparr>books_tbl = [], book_issues_tbl = [], counseling_requests_tbl = [example_request st],
      users_tbl = []\<rparr>"

definition example_counselor :: "request_status \<Rightarrow> string option list \<Rightarrow> counselor" where
  "example_counselor st fs =
     counselor_mount (example_counseling st) fs (Some ''c1'') ''2024-02-03T10:15:00.000Z''"


section \<open>Auxiliary facts\<close>

lemma scheduled_tl [simp]: "scheduled n (tl fs) = scheduled (Suc n) fs"
  by (cases fs) simp_all

lemma send_eq:
  "send c w = (scheduled 0 (faults w), w\<lparr>calls := calls w @ [c], faults := tl (faults w)\<rparr>)"
  by (cases "faults w") (simp_all add: send_def)


lemma update_book_issues_eq:
  "update_book_issues p k w =
     (Response (scheduled 0 (faults w)) None,
      (if scheduled 0 (faults w) = None
       then w\<lparr>calls := calls w @ [Update_book_issues p k], faults := tl (faults w),
              db := (db w)\<lparr>book_issues_tbl :=
                 map (\<lambda>r. if id_BookIssue r = k then fold assign_issue p r else r)
                   (book_issues_tbl (db w))\<rparr>\<rparr>
       else w\<lparr>calls := calls w @ [Update_book_issues p k], faults := tl (faults w)\<rparr>))"
  by (simp add: update_book_issues_def send_eq split: option.splits)

lemma update_books_eq:
  "update_books p k w =
     (Response (scheduled 0 (faults w)) None,
      (if scheduled 0 (faults w) = None
       then w\<lparr>calls := calls w @ [Update_books p k], faults := tl (faults w),
              db := (db w)\<lparr>books_tbl :=
                 map (\<lambda>b. if id_Book b = k then fold assign_book p b else b)
                   (books_tbl (db w))\<rparr>\<rparr>
       else w\<lparr>calls := calls w @ [Update_books p k], faults := tl (faults w)\<rparr>))"
  by (simp add: update_books_def send_eq split: option.splits)

lemma loadLibraryData_eq:
  "loadLibraryData s =
     (Inr (),
      (let s2 = s\<lparr>calls := calls s @ [Select_books, Select_book_issues],
                 faults := tl (tl (faults s))\<rparr>
      in case scheduled 0 (faults s) of
           Some e \<Rightarrow> s2\<lparr>console := console s @ [''Error loading library data: '' @ e],
                       loading := False\<rparr>
         | None \<Rightarrow>
            (case scheduled 1 (faults s) of
               Some e \<Rightarrow> s2\<lparr>console := console s @ [''Error loading library data: '' @ e],
                       loading := False\<rparr>
             | None \<Rightarrow>
                 s2\<lparr>books := sort_key title (books_tbl (db s)),
                    bookIssues := map (join_issue (db s))
                      (rev (sort_key issued_date (book_issues_tbl (db s)))),
                    stats := library_stats_of (sort_key title (books_tbl (db s)))
                      (map (join_issue (db s))
                      (rev (sort_key issued_date (book_issues_tbl (db s))))),
                    loading := False\<rparr>)))"
  by (simp add: loadLibraryData_def loadLibraryData_try_def select_books_def
        select_book_issues_def send_eq Let_def split: option.splits)









text \<open>The equations that evaluate the librarian dashboard on given data.\<close>

lemmas librarian_eval =
  handleIssueAction_def update_book_issues_eq update_availability_def update_books_eq
  loadLibraryData_eq issue_updateData_def librarian_mount_def librarian_init_def
  join_issue_def issue_row.defs BookIssue.defs Student.defs library_stats_of_def Let_def

section \<open>Book issue transitions\<close>





text \<open>
  C5: the end-to-end scenario. One book with \<open>total_copies = 2\<close> and
  \<open>available_copies = 2\<close>, one \<open>requested\<close> issue referencing it, the dashboard mounted on
  a backend that answers every request without error. Approving yields
  \<open>available_copies = 1\<close> and status \<open>issued\<close>; returning then yields
  \<open>available_copies = 2\<close> and status \<open>returned\<close> with the return date set to the date part
  of the clock, in the tables and in the reloaded snapshot.
\<close>

theorem approve_then_return_scenario:
  assumes "total_copies b = 2" and "available_copies b = 2"
    and "status r = Requested" and "book_id r = id_Book b"
    and "d = \<lparr>books_tbl = [b], book_issues_tbl = [r], counseling_requests_tbl = cs,
              users_tbl = us\<rparr>"
    and "s1 = handleIssueAction (id_BookIssue r) Approve (librarian_mount d [] u t)"
    and "s2 = handleIssueAction (id_BookIssue r) Return s1"
  shows "map available_copies (books_tbl (db s1)) = [1]
       \<and> map status (book_issues_tbl (db s1)) = [Issued]
       \<and> map available_copies (books_tbl (db s2)) = [2]
       \<and> map status (book_issues_tbl (db s2)) = [Returned]
       \<and> map return_date (book_issues_tbl (db s2)) =
           [Some (takeWhile (\<lambda>c. c \<noteq> CHR ''T'') t)]
       \<and> map available_copies (books s1) = [1] \<and> map status (bookIssues s1) = [Issued]
       \<and> map available_copies (books s2) = [2] \<and> map status (bookIssues s2) = [Returned]
       \<and> alerts s2 = [''Book issued successfully!'', ''Book returned successfully!'']"
  using assms by (cases u) (simp_all add: librarian_eval)

text \<open>The scenario at the example data: the return date is the date part of the clock.\<close>

theorem approve_then_return_scenario_witness:
  "total_copies (example_book 2 2) = 2 \<and> available_copies (example_book 2 2) = 2
   \<and> status (example_issue Requested) = Requested
   \<and> map available_copies (books_tbl (db (handleIssueAction ''i1'' Return
        (handleIssueAction ''i1'' Approve (example_librarian 2 2 Requested []))))) = [2]
   \<and> map return_date (book_issues_tbl (db (handleIssueAction ''i1'' Return
        (handleIssueAction ''i1'' Approve (example_librarian 2 2 Requested []))))) =
        [Some ''2024-02-03'']"
  using approve_then_return_scenario [of "example_book 2 2" "example_issue Requested"
      "example_library 2 2 Requested" "[]" "[]" _ "Some ''staff''"
      "''2024-02-03T10:15:00.000Z''" _, OF _ _ _ _ _ refl refl]
  by (simp add: example_librarian_def example_book_def example_issue_def example_library_def)







section \<open>The inventory along a sequence of actions\<close>
















section \<open>Counseling request transitions\<close>

lemma update_counseling_requests_eq:
  "update_counseling_requests p k w =
     (Response (scheduled 0 (faults w)) None,
      (if scheduled 0 (faults w) = None
       then w\<lparr>calls := calls w @ [Update_counseling_requests p k], faults := tl (faults w),
              db := (db w)\<lparr>counseling_requests_tbl :=
                 map (\<lambda>r. if id_CounselingRequest r = k then fold assign_request p r else r)
                   (counseling_requests_tbl (db w))\<rparr>\<rparr>
       else w\<lparr>calls := calls w @ [Update_counseling_requests p k],
              faults := tl (faults w)\<rparr>))"
  by (simp add: update_counseling_requests_def send_eq split: option.splits)

lemma loadCounselingRequests_guard:
  "user_id s = None \<or> user_id s = Some [] \<Longrightarrow> loadCounselingRequests s = (Inr (), s)"
  by (auto simp: loadCounselingRequests_def)

lemma loadCounselingRequests_eq:
  assumes "user_id s = Some uid" and "uid \<noteq> []"
  shows "loadCounselingRequests s =
     (Inr (),
      (let s1 = s\<lparr>calls := calls s @ [Select_counseling_requests uid],
                 faults := tl (faults s)\<rparr>;
           requestsData = map (join_request (db s))
             (rev (sort_key requested_at
                (filter (\<lambda>r. counselor_id r = uid) (counseling_requests_tbl (db s)))))
       in case scheduled 0 (faults s) of
            Some e \<Rightarrow>
              s1\<lparr>console := console s @ [''Error loading counseling requests: '' @ e],
                 loading_c := False\<rparr>
          | None \<Rightarrow>
              s1\<lparr>requests := requestsData, stats_c := counseling_stats_of requestsData,
                 loading_c := False\<rparr>))"
  using assms
  by (simp add: loadCounselingRequests_def loadCounselingRequests_try_def
        select_counseling_requests_def send_eq Let_def split: option.splits)

lemma loadCounselingRequests_frame:
  "db (snd (loadCounselingRequests s)) = db s"
  "alerts (snd (loadCounselingRequests s)) = alerts s"
  "clock (snd (loadCounselingRequests s)) = clock s"
  "user_id (snd (loadCounselingRequests s)) = user_id s"
  "fst (loadCounselingRequests s) = Inr ()"
  "filter is_write (calls (snd (loadCounselingRequests s))) = filter is_write (calls s)"
proof -
  consider "user_id s = None \<or> user_id s = Some []"
    | uid where "user_id s = Some uid" "uid \<noteq> []"
    by (cases "user_id s") auto
  then have "db (snd (loadCounselingRequests s)) = db s
      \<and> alerts (snd (loadCounselingRequests s)) = alerts s
      \<and> clock (snd (loadCounselingRequests s)) = clock s
      \<and> user_id (snd (loadCounselingRequests s)) = user_id s
      \<and> fst (loadCounselingRequests s) = Inr ()
      \<and> filter is_write (calls (snd (loadCounselingRequests s))) = filter is_write (calls s)"
  proof cases
    case 1
    then show ?thesis by (simp add: loadCounselingRequests_guard)
  next
    case 2
    then show ?thesis
      by (cases "scheduled 0 (faults s)") (simp_all add: loadCounselingRequests_eq Let_def)
  qed
  then show "db (snd (loadCounselingRequests s)) = db s"
    "alerts (snd (loadCounselingRequests s)) = alerts s"
    "clock (snd (loadCounselingRequests s)) = clock s"
    "user_id (snd (loadCounselingRequests s)) = user_id s"
    "fst (loadCounselingRequests s) = Inr ()"
    "filter is_write (calls (snd (loadCounselingRequests s))) = filter is_write (calls s)"
    by simp_all
qed

lemma handleRequestAction_rejected:
  assumes "scheduled 0 (faults s) = Some e"
  shows "handleRequestAction requestId action s =
     s\<lparr>calls := calls s @
         [Update_counseling_requests (request_updateData action s) requestId],
       faults := tl (faults s),
       console := console s @
         [''Error '' @ request_action_name action @ ''ing request: '' @ e],
       alerts := alerts s @
         [''Failed to '' @ request_action_name action @ '' request. Please try again.'']\<rparr>"
  using assms by (simp add: handleRequestAction_def update_counseling_requests_eq Let_def)

lemma handleRequestAction_accepted:
  assumes "scheduled 0 (faults s) = None"
  shows "handleRequestAction requestId action s =
     (snd (loadCounselingRequests
        (s\<lparr>calls := calls s @
              [Update_counseling_requests (request_updateData action s) requestId],
           faults := tl (faults s),
           db := (db s)\<lparr>counseling_requests_tbl :=
              map (\<lambda>r. if id_CounselingRequest r = requestId
                       then fold assign_request (request_updateData action s) r else r)
                (counseling_requests_tbl (db s))\<rparr>\<rparr>)))
     \<lparr>alerts := alerts s @
        [''Request '' @ request_action_name action @ ''ed successfully!'']\<rparr>"
  using assms
  by (simp add: handleRequestAction_def update_counseling_requests_eq Let_def split_beta
        loadCounselingRequests_frame)

lemma handleRequestAction_tbl:
  "counseling_requests_tbl (db (handleRequestAction requestId action s)) =
     (if scheduled 0 (faults s) = None
      then map (\<lambda>r. if id_CounselingRequest r = requestId
                    then fold assign_request (request_updateData action s) r else r)
             (counseling_requests_tbl (db s))
      else counseling_requests_tbl (db s))"
  by (cases "scheduled 0 (faults s)")
    (simp_all add: handleRequestAction_rejected handleRequestAction_accepted
       loadCounselingRequests_frame)

lemma handleRequestAction_writes:
  "filter is_write (calls (handleRequestAction requestId action s)) =
     filter is_write (calls s) @
       [Update_counseling_requests (request_updateData action s) requestId]"
  by (cases "scheduled 0 (faults s)")
    (simp_all add: handleRequestAction_rejected handleRequestAction_accepted
       loadCounselingRequests_frame)

lemma request_fold_frame:
  "reason (fold assign_request (request_updateData action s) r) = reason r"
  "message (fold assign_request (request_updateData action s) r) = message r"
  "requested_at (fold assign_request (request_updateData action s) r) = requested_at r"
  "student_id_req (fold assign_request (request_updateData action s) r) = student_id_req r"
  "counselor_id (fold assign_request (request_updateData action s) r) = counselor_id r"
  "id_CounselingRequest (fold assign_request (request_updateData action s) r) =
     id_CounselingRequest r"
  "completed_at (fold assign_request (request_updateData Accept s) r) = completed_at r"
  by (cases action; simp add: request_updateData_def)+

lemma map_if_frame:
  assumes "\<And>r. f (h r) = f r"
  shows "map f (map (\<lambda>r. if P r then h r else r) xs) = map f xs"
  using assms by (induction xs) simp_all

text \<open>The equations that evaluate the counselor dashboard on the example data.\<close>

lemmas counselor_eval =
  example_counselor_def example_counseling_def example_request_def
  counselor_mount_def counselor_init_def
  loadCounselingRequests_def loadCounselingRequests_try_def
  select_counseling_requests_def send_eq join_request_def request_row.defs
  CounselingRequest.defs Student.defs counseling_stats_of_def Let_def

text \<open>
  C9: accept sends one write, of the status alone; complete sends one write, of the status
  and \<open>completed_at\<close>. Whatever the backend answers, accept leaves every
  \<open>completed_at\<close> as it was, and neither action changes the reason, message,
  \<open>requested_at\<close>, student reference, counselor reference or id of any request.
\<close>

theorem request_actions_write_status_only:
  "filter is_write (calls (handleRequestAction requestId Accept s)) =
     filter is_write (calls s) @
       [Update_counseling_requests [Set_status_req Accepted] requestId]
   \<and> filter is_write (calls (handleRequestAction requestId Complete s)) =
     filter is_write (calls s) @
       [Update_counseling_requests [Set_status_req Completed, Set_completed_at (clock s)]
          requestId]
   \<and> map completed_at (counseling_requests_tbl (db (handleRequestAction requestId Accept s)))
       = map completed_at (counseling_requests_tbl (db s))
   \<and> map reason (counseling_requests_tbl (db (handleRequestAction requestId action s)))
       = map reason (counseling_requests_tbl (db s))
   \<and> map message (counseling_requests_tbl (db (handleRequestAction requestId action s)))
       = map message (counseling_requests_tbl (db s))
   \<and> map requested_at (counseling_requests_tbl (db (handleRequestAction requestId action s)))
       = map requested_at (counseling_requests_tbl (db s))
   \<and> map student_id_req (counseling_requests_tbl (db (handleRequestAction requestId action s)))
       = map student_id_req (counseling_requests_tbl (db s))
   \<and> map counselor_id (counseling_requests_tbl (db (handleRequestAction requestId action s)))
       = map counselor_id (counseling_requests_tbl (db s))
   \<and> map id_CounselingRequest
         (counseling_requests_tbl (db (handleRequestAction requestId action s)))
       = map id_CounselingRequest (counseling_requests_tbl (db s))"
proof (intro conjI)
  show "filter is_write (calls (handleRequestAction requestId Accept s)) =
     filter is_write (calls s) @
       [Update_counseling_requests [Set_status_req Accepted] requestId]"
    by (simp add: handleRequestAction_writes request_updateData_def)
  show "filter is_write (calls (handleRequestAction requestId Complete s)) =
     filter is_write (calls s) @
       [Update_counseling_requests [Set_status_req Completed, Set_completed_at (clock s)]
          requestId]"
    by (simp add: handleRequestAction_writes request_updateData_def)
qed (simp_all add: handleRequestAction_tbl map_if_frame request_fold_frame)

text \<open>Accepting the example request: one write of the status, the other columns kept.\<close>

theorem request_actions_write_status_only_witness:
  "filter is_write (calls (handleRequestAction ''r1'' Accept (example_counselor Pending []))) =
     [Update_counseling_requests [Set_status_req Accepted] ''r1'']
   \<and> map completed_at (counseling_requests_tbl
        (db (handleRequestAction ''r1'' Accept (example_counselor Pending [])))) = [None]
   \<and> map reason (counseling_requests_tbl
        (db (handleRequestAction ''r1'' Accept (example_counselor Pending [])))) =
       [''Exam stress'']"
  using request_actions_write_status_only [of "''r1''" "example_counselor Pending []" Accept]
  by (simp add: counselor_eval)




text \<open>
  C10: with no authenticated user id, \<open>loadCounselingRequests\<close> returns at once and
  changes nothing: no request is sent, and the requests snapshot, the stats and the
  loading flag keep their values.
\<close>

theorem load_without_user_is_noop:
  assumes "user_id s = None"
  shows "loadCounselingRequests s = (Inr (), s)
       \<and> calls (snd (loadCounselingRequests s)) = calls s
       \<and> requests (snd (loadCounselingRequests s)) = requests s
       \<and> stats_c (snd (loadCounselingRequests s)) = stats_c s
       \<and> loading_c (snd (loadCounselingRequests s)) = loading_c s"
  using assms by (simp add: loadCounselingRequests_def)

text \<open>Mounting the counselor dashboard with no user: nothing sent, still loading.\<close>

theorem load_without_user_is_noop_witness:
  "user_id (counselor_init (example_counseling Pending) [] None ''2024-02-03T10:15:00.000Z'')
     = None
   \<and> calls (counselor_mount (example_counseling Pending) [] None
        ''2024-02-03T10:15:00.000Z'') = []
   \<and> requests (counselor_mount (example_counseling Pending) [] None
        ''2024-02-03T10:15:00.000Z'') = []
   \<and> loading_c (counselor_mount (example_counseling Pending) [] None
        ''2024-02-03T10:15:00.000Z'') = True"
  using load_without_user_is_noop
    [of "counselor_init (example_counseling Pending) [] None ''2024-02-03T10:15:00.000Z''"]
  by (simp add: counselor_mount_def counselor_init_def)

section \<open>Snapshot loaders and stats\<close>









end
